theory Spec2Isabelle
  imports Complex_Main "HOL-Library.Word"
begin

section \<open>Values, errors and the state of the simulated exchange\<close>

text \<open>
  The development follows \<^verbatim>\<open>binance_trade_bot/backtest.py\<close>. Python floats are
  read as real numbers (exact arithmetic), a coin as its ticker symbol, and every
  exception the code can raise as a value of \<open>error\<close>.
\<close>

type_synonym symbol = string

datatype error =
    IndexError | KeyError | TypeError | ZeroDivisionError | OverflowError
  | AttributeError | ConnectionError | BinanceAPIException | KeyboardInterrupt
  | RuntimeError

text \<open>
  A Python \<^verbatim>\<open>datetime\<close> is the number of microseconds since
  \<^verbatim>\<open>datetime.min\<close> (0001-01-01T00:00:00); \<^verbatim>\<open>datetime.max\<close> is
  9999-12-31T23:59:59.999999. \<^verbatim>\<open>strftime("%d %b %Y %H:%M:%S")\<close> prints a
  datetime to the second: the printed text is represented by the number of whole
  seconds, which it determines and which determines it.
\<close>

type_synonym datetime = int

definition datetime_max :: datetime where
  "datetime_max = 315537897599999999"

definition minutes :: "int \<Rightarrow> int" where
  "minutes interval = interval * 60000000"

definition datetime_2021_01_01 :: datetime where
  "datetime_2021_01_01 = 63745056000000000"

definition strftime :: "datetime \<Rightarrow> int" where
  "strftime t = t div 1000000"

text \<open>
  What \<^verbatim>\<open>binance_client.get_historical_klines(symbol, "1m", dt, dt)\<close> answers:
  a list of klines, each given by its field 1 (the open price) already converted by
  \<^verbatim>\<open>float\<close>, or an exception. The client is external, so its answer is a
  parameter: \<open>src n symbol dt\<close> is the answer to request number \<open>n\<close>
  (counted from 0 over the whole run).
\<close>

datatype response = Klines "real list" | Raises error

type_synonym source = "nat \<Rightarrow> symbol \<Rightarrow> int \<Rightarrow> response"

text \<open>
  The state: the manager's \<^verbatim>\<open>datetime\<close> and \<^verbatim>\<open>balances\<close>, the
  module-level disk \<^verbatim>\<open>cache\<close>, and a ghost counter \<open>calls\<close> of the
  requests sent to the historical price source so far.
\<close>

record state =
  datetime :: datetime
  balances :: "symbol \<rightharpoonup> real"
  cache :: "symbol \<times> int \<rightharpoonup> real"
  calls :: nat

section \<open>MockBinanceManager\<close>

text \<open>\<^verbatim>\<open>increment\<close>: \<^verbatim>\<open>self.datetime += timedelta(minutes=interval)\<close>, for an
  integer number of minutes. Python raises OverflowError when the sum leaves the range
  of \<^verbatim>\<open>datetime\<close>; the attribute is then not assigned.\<close>

definition increment :: "int \<Rightarrow> state \<Rightarrow> (error + unit) \<times> state" where
  "increment interval s =
     (let t = datetime s + minutes interval
      in if 0 \<le> t \<and> t \<le> datetime_max then (Inr (), s\<lparr>datetime := t\<rparr>)
         else (Inl OverflowError, s))"

definition get_fee :: "symbol \<Rightarrow> symbol \<Rightarrow> bool \<Rightarrow> real" where
  "get_fee origin_coin target_coin selling = 0.0075"

text \<open>\<^verbatim>\<open>get_market_ticker_price\<close>. The retry after a ConnectionError is a recursive
  call with no bound, so the function is partial: \<open>None\<close> is "never returns". The
  sleep before the retry takes real time only.\<close>

partial_function (option) get_market_ticker_price ::
  "source \<Rightarrow> symbol \<Rightarrow> state \<Rightarrow> ((error + real option) \<times> state) option" where
  "get_market_ticker_price src ticker_symbol s =
     (let dt = strftime (datetime s); key = (ticker_symbol, dt) in
      case cache s key of
        Some val \<Rightarrow> Some (Inr (Some val), s)
      | None \<Rightarrow>
          (let s1 = s\<lparr>calls := Suc (calls s)\<rparr> in
           case src (calls s) ticker_symbol dt of
             Klines [] \<Rightarrow> Some (Inr None, s1)
           | Klines (k # ks) \<Rightarrow> Some (Inr (Some k), s1\<lparr>cache := (cache s1)(key \<mapsto> k)\<rparr>)
           | Raises e \<Rightarrow>
               if e = ConnectionError then get_market_ticker_price src ticker_symbol s1
               else if e = IndexError then Some (Inr None, s1)
               else Some (Inl e, s1)))"

declare get_market_ticker_price.simps [code]

definition get_currency_balance :: "state \<Rightarrow> symbol \<Rightarrow> real" where
  "get_currency_balance s currency_symbol =
     (case balances s currency_symbol of None \<Rightarrow> 0 | Some b \<Rightarrow> b)"

text \<open>The \<^verbatim>\<open>all_tickers\<close> argument of \<^verbatim>\<open>buy_alt\<close>: an object with a
  \<^verbatim>\<open>get_price\<close> method. \<^verbatim>\<open>FakeAllTickers\<close> forwards to the manager's
  \<^verbatim>\<open>get_market_ticker_price\<close>.\<close>

text \<open>Modelled from the spec: the base class \<^verbatim>\<open>AllTickers\<close> is imported from
  \<^verbatim>\<open>binance_api_manager\<close>, which is not among the sources. The spec calls it a
  live ticker snapshot: \<open>AllTickers snap\<close> answers \<^verbatim>\<open>get_price\<close> from the
  snapshot \<open>snap\<close>, absent for a pair that is not in it.\<close>

datatype all_tickers = AllTickers "symbol \<rightharpoonup> real" | FakeAllTickers

definition get_all_market_tickers :: "state \<Rightarrow> all_tickers" where
  "get_all_market_tickers s = FakeAllTickers"

definition get_price ::
  "source \<Rightarrow> all_tickers \<Rightarrow> symbol \<Rightarrow> state \<Rightarrow> ((error + real option) \<times> state) option" where
  "get_price src all_tickers ticker_symbol s =
     (case all_tickers of
        FakeAllTickers \<Rightarrow> get_market_ticker_price src ticker_symbol s
      | AllTickers snap \<Rightarrow> Some (Inr (snap ticker_symbol), s))"

text \<open>The order-size helpers \<^verbatim>\<open>_buy_quantity\<close> and \<^verbatim>\<open>_sell_quantity\<close> are
  inherited from \<^verbatim>\<open>BinanceAPIManager\<close>, which is not among the sources; the order
  methods take them as parameters \<open>bq\<close> and \<open>sq\<close>: the quantity, or the
  exception the helper raises.\<close>

type_synonym buy_sizing = "symbol \<Rightarrow> symbol \<Rightarrow> real \<Rightarrow> real option \<Rightarrow> error + real"
type_synonym sell_sizing = "symbol \<Rightarrow> symbol \<Rightarrow> real \<Rightarrow> error + real"

text \<open>Modelled from the spec: \<^verbatim>\<open>_buy_quantity\<close> is "quantity = available_target /
  price", spending the whole target balance. Dividing by an absent price is Python's
  TypeError, dividing by zero its ZeroDivisionError.\<close>

definition buy_quantity :: buy_sizing where
  "buy_quantity origin_symbol target_symbol target_balance from_coin_price =
     (case from_coin_price of
        None \<Rightarrow> Inl TypeError
      | Some p \<Rightarrow> if p = 0 then Inl ZeroDivisionError else Inr (target_balance / p))"

text \<open>Modelled from the spec: \<^verbatim>\<open>_sell_quantity\<close> is "the entire available origin
  balance".\<close>

definition sell_quantity :: sell_sizing where
  "sell_quantity origin_symbol target_symbol origin_balance = Inr origin_balance"

text \<open>\<^verbatim>\<open>buy_alt\<close>. \<^verbatim>\<open>order_quantity * from_coin_price\<close> is a TypeError when the
  price is absent; \<^verbatim>\<open>self.balances[target_symbol] -= ...\<close> is a KeyError when the
  ledger has no entry for the target. The returned dictionary is represented by its
  only field, the price.\<close>

definition buy_alt ::
  "source \<Rightarrow> buy_sizing \<Rightarrow> symbol \<Rightarrow> symbol \<Rightarrow> all_tickers \<Rightarrow> state
     \<Rightarrow> ((error + real) \<times> state) option" where
  "buy_alt src bq origin_symbol target_symbol all_tickers s =
     (let target_balance = get_currency_balance s target_symbol in
      case get_price src all_tickers (origin_symbol @ target_symbol) s of
        None \<Rightarrow> None
      | Some (Inl e, s1) \<Rightarrow> Some (Inl e, s1)
      | Some (Inr from_coin_price, s1) \<Rightarrow>
          (case bq origin_symbol target_symbol target_balance from_coin_price of
             Inl e \<Rightarrow> Some (Inl e, s1)
           | Inr order_quantity \<Rightarrow>
               (case from_coin_price of
                  None \<Rightarrow> Some (Inl TypeError, s1)
                | Some p \<Rightarrow>
                    (let target_quantity = order_quantity * p in
                     case balances s1 target_symbol of
                       None \<Rightarrow> Some (Inl KeyError, s1)
                     | Some b \<Rightarrow>
                         (let s2 = s1\<lparr>balances := (balances s1)(target_symbol \<mapsto> b - target_quantity)\<rparr>;
                              s3 = s2\<lparr>balances := (balances s2)(origin_symbol \<mapsto>
                                     get_currency_balance s2 origin_symbol
                                       + order_quantity * (1 - get_fee origin_symbol target_symbol False))\<rparr>
                          in Some (Inr p, s3))))))"

text \<open>\<^verbatim>\<open>sell_alt\<close>. The target is credited first; the debit of the origin is a
  KeyError when the ledger has no entry for it, after the credit has been written.\<close>

definition sell_alt ::
  "source \<Rightarrow> sell_sizing \<Rightarrow> symbol \<Rightarrow> symbol \<Rightarrow> state \<Rightarrow> ((error + real) \<times> state) option" where
  "sell_alt src sq origin_symbol target_symbol s =
     (let origin_balance = get_currency_balance s origin_symbol in
      case get_market_ticker_price src (origin_symbol @ target_symbol) s of
        None \<Rightarrow> None
      | Some (Inl e, s1) \<Rightarrow> Some (Inl e, s1)
      | Some (Inr from_coin_price, s1) \<Rightarrow>
          (case sq origin_symbol target_symbol origin_balance of
             Inl e \<Rightarrow> Some (Inl e, s1)
           | Inr order_quantity \<Rightarrow>
               (case from_coin_price of
                  None \<Rightarrow> Some (Inl TypeError, s1)
                | Some p \<Rightarrow>
                    (let target_quantity = order_quantity * p;
                         s2 = s1\<lparr>balances := (balances s1)(target_symbol \<mapsto>
                                get_currency_balance s1 target_symbol
                                  + target_quantity * (1 - get_fee origin_symbol target_symbol True))\<rparr>
                     in case balances s2 origin_symbol of
                          None \<Rightarrow> Some (Inl KeyError, s2)
                        | Some b \<Rightarrow>
                            Some (Inr p, s2\<lparr>balances := (balances s2)(origin_symbol \<mapsto> b - order_quantity)\<rparr>)))))"

section \<open>Sequences of orders\<close>






definition cache_non_negative :: "state \<Rightarrow> bool" where
  "cache_non_negative s = (\<forall>key v. cache s key = Some v \<longrightarrow> 0 \<le> v)"


section \<open>Two price lookups in a row\<close>


section \<open>The virtual clock\<close>

text \<open>\<open>n\<close> calls of \<^verbatim>\<open>increment\<close> in a row, stopping at the first that raises.\<close>

fun advance :: "nat \<Rightarrow> int \<Rightarrow> state \<Rightarrow> (error + unit) \<times> state" where
  "advance 0 interval s = (Inr (), s)"
| "advance (Suc n) interval s =
     (case increment interval s of
        (Inl e, s') \<Rightarrow> (Inl e, s')
      | (Inr u, s') \<Rightarrow> advance n interval s')"

section \<open>backtest\<close>

record config =
  BRIDGE :: symbol
  SUPPORTED_COIN_LIST :: "symbol list"

text \<open>The \<^verbatim>\<open>AutoTrader\<close> is an external collaborator with a state \<open>'t\<close> of its
  own and full access to the manager. A call is given by its effect when it comes back:
  it returns or raises, and leaves a trader state and a manager state.\<close>

record 't trader =
  initialize_trade_thresholds :: "'t \<times> state \<Rightarrow> (error + unit) \<times> 't \<times> state"
  scout :: "'t \<times> state \<Rightarrow> (error + unit) \<times> 't \<times> state"

text \<open>\<^verbatim>\<open>MockBinanceManager.__init__\<close>: \<^verbatim>\<open>start_date or datetime(2021, 1, 1)\<close> and
  \<^verbatim>\<open>start_balances or {config.BRIDGE.symbol: 100}\<close>; an empty dictionary is falsy. The
  disk cache is what earlier runs left.\<close>

definition init_manager ::
  "config \<Rightarrow> datetime option \<Rightarrow> (symbol \<rightharpoonup> real) option \<Rightarrow> (symbol \<times> int \<rightharpoonup> real) \<Rightarrow> state" where
  "init_manager config start_date start_balances disk =
     \<lparr>datetime = (case start_date of None \<Rightarrow> datetime_2021_01_01 | Some d \<Rightarrow> d),
      balances = (case start_balances of
                    None \<Rightarrow> [BRIDGE config \<mapsto> 100]
                  | Some b \<Rightarrow> if b = Map.empty then [BRIDGE config \<mapsto> 100] else b),
      cache = disk,
      calls = 0\<rparr>"

text \<open>\<^verbatim>\<open>starting_coin or config.SUPPORTED_COIN_LIST[0]\<close>: an empty string is falsy, and
  index 0 of an empty list is an IndexError.\<close>

definition starting_symbol :: "config \<Rightarrow> symbol option \<Rightarrow> error + symbol" where
  "starting_symbol config starting_coin =
     (let first = (case SUPPORTED_COIN_LIST config of [] \<Rightarrow> Inl IndexError | c # cs \<Rightarrow> Inr c)
      in case starting_coin of
           None \<Rightarrow> first
         | Some c \<Rightarrow> if c = [] then first else Inr c)"

text \<open>Lines 141 to 143: the starting coin is fetched from the database (an external
  collaborator: \<open>get_coin\<close> gives the symbol of the coin found, or the exception
  raised on the way), and bought with the bridge when its balance is zero.\<close>

definition open_position ::
  "source \<Rightarrow> buy_sizing \<Rightarrow> (symbol \<Rightarrow> error + symbol) \<Rightarrow> config \<Rightarrow> symbol option \<Rightarrow> state
     \<Rightarrow> ((error + symbol) \<times> state) option" where
  "open_position src bq get_coin config starting_coin manager =
     (case starting_symbol config starting_coin of
        Inl e \<Rightarrow> Some (Inl e, manager)
      | Inr c \<Rightarrow>
          (case get_coin c of
             Inl e \<Rightarrow> Some (Inl e, manager)
           | Inr coin \<Rightarrow>
               if get_currency_balance manager coin = 0 then
                 (case buy_alt src bq coin (BRIDGE config) (get_all_market_tickers manager) manager of
                    None \<Rightarrow> None
                  | Some (Inl e, s1) \<Rightarrow> Some (Inl e, s1)
                  | Some (Inr p, s1) \<Rightarrow> Some (Inr coin, s1))
               else Some (Inr coin, manager)))"

text \<open>The \<^verbatim>\<open>while\<close> loop of lines 150 to 153, with a ghost counter \<open>n\<close> of the
  calls of \<^verbatim>\<open>scout\<close>. It stops at the first exception, which it hands on with the
  state at the raise.\<close>

partial_function (option) tick_loop ::
  "('t \<times> state \<Rightarrow> (error + unit) \<times> 't \<times> state) \<Rightarrow> datetime \<Rightarrow> int \<Rightarrow> nat \<Rightarrow> 't \<Rightarrow> state
     \<Rightarrow> ((error + unit) \<times> nat \<times> 't \<times> state) option" where
  "tick_loop scout_fn end_date interval n t s =
     (if datetime s < end_date then
        (case scout_fn (t, s) of
           (Inl e, t1, s1) \<Rightarrow> Some (Inl e, Suc n, t1, s1)
         | (Inr u, t1, s1) \<Rightarrow>
             (case increment interval s1 of
                (Inl e, s2) \<Rightarrow> Some (Inl e, Suc n, t1, s2)
              | (Inr u, s2) \<Rightarrow> tick_loop scout_fn end_date interval (Suc n) t1 s2))
      else Some (Inr (), n, t, s))"

declare tick_loop.simps [code]

text \<open>Lines 149 to 156: the loop inside \<^verbatim>\<open>try\<close>, \<^verbatim>\<open>except KeyboardInterrupt: pass\<close>,
  and the return of the balances. The result is the ledger or the exception that
  escapes, with the number of \<^verbatim>\<open>scout\<close> calls made.\<close>

definition run_loop ::
  "'t trader \<Rightarrow> datetime \<Rightarrow> int \<Rightarrow> 't \<Rightarrow> state \<Rightarrow> ((error + (symbol \<rightharpoonup> real)) \<times> nat) option" where
  "run_loop tr end_date interval t s =
     (case tick_loop (scout tr) end_date interval 0 t s of
        None \<Rightarrow> None
      | Some (Inl e, n, t1, s1) \<Rightarrow>
          if e = KeyboardInterrupt then Some (Inr (balances s1), n) else Some (Inl e, n)
      | Some (Inr u, n, t1, s1) \<Rightarrow> Some (Inr (balances s1), n))"

text \<open>\<^verbatim>\<open>backtest\<close>. \<open>today\<close> is \<^verbatim>\<open>datetime.today()\<close>, \<open>disk\<close> the disk cache at
  the start and \<open>t0\<close> the state of the freshly built trader.\<close>

definition backtest ::
  "source \<Rightarrow> buy_sizing \<Rightarrow> (symbol \<Rightarrow> error + symbol) \<Rightarrow> 't trader \<Rightarrow> 't \<Rightarrow> datetime
     \<Rightarrow> (symbol \<times> int \<rightharpoonup> real)
     \<Rightarrow> datetime option \<Rightarrow> datetime option \<Rightarrow> int \<Rightarrow> (symbol \<rightharpoonup> real) option \<Rightarrow> symbol option
     \<Rightarrow> config \<Rightarrow> ((error + (symbol \<rightharpoonup> real)) \<times> nat) option" where
  "backtest src bq get_coin tr t0 today disk start_date end_date interval start_balances
     starting_coin config =
     (let end_date = (case end_date of None \<Rightarrow> today | Some e \<Rightarrow> e);
          manager = init_manager config start_date start_balances disk
      in case open_position src bq get_coin config starting_coin manager of
           None \<Rightarrow> None
         | Some (Inl e, s1) \<Rightarrow> Some (Inl e, 0)
         | Some (Inr coin, s1) \<Rightarrow>
             (case initialize_trade_thresholds tr (t0, s1) of
                (Inl e, t1, s2) \<Rightarrow> Some (Inl e, 0)
              | (Inr u, t1, s2) \<Rightarrow> run_loop tr end_date interval t1 s2))"

text \<open>The state after \<open>k\<close> whole ticks of the loop (\<^verbatim>\<open>scout\<close> returned and the clock
  advanced, \<open>k\<close> times), used to say when an interruption arrives.\<close>

fun after_ticks ::
  "('t \<times> state \<Rightarrow> (error + unit) \<times> 't \<times> state) \<Rightarrow> datetime \<Rightarrow> int \<Rightarrow> nat \<Rightarrow> 't \<times> state
     \<Rightarrow> ('t \<times> state) option" where
  "after_ticks scout_fn end_date interval 0 ts = Some ts"
| "after_ticks scout_fn end_date interval (Suc k) ts =
     (if datetime (snd ts) < end_date then
        (case scout_fn ts of
           (Inl e, t1, s1) \<Rightarrow> None
         | (Inr u, t1, s1) \<Rightarrow>
             (case increment interval s1 of
                (Inl e, s2) \<Rightarrow> None
              | (Inr u, s2) \<Rightarrow> after_ticks scout_fn end_date interval k (t1, s2)))
      else None)"

section \<open>download_market_data\<close>

text \<open>One round of the worker's loop body (lines 169 to 174) for a counter that is a
  C \<^verbatim>\<open>int\<close> in shared memory: the \<^verbatim>\<open>try\<close> block, and the \<^verbatim>\<open>except\<close> clause that
  sleeps. The round ends normally or with the exception that escapes.\<close>

definition thread_step ::
  "source \<Rightarrow> symbol \<Rightarrow> int \<Rightarrow> 32 word \<Rightarrow> state \<Rightarrow> ((error + unit) \<times> 32 word \<times> state) option" where
  "thread_step src symbol interval counter manager =
     (case get_market_ticker_price src symbol manager of
        None \<Rightarrow> None
      | Some (Inl e, s1) \<Rightarrow>
          if e = BinanceAPIException then Some (Inr (), counter, s1)
          else Some (Inl e, counter, s1)
      | Some (Inr price, s1) \<Rightarrow>
          (case increment interval s1 of
             (Inl e, s2) \<Rightarrow> Some (Inl e, counter, s2)
           | (Inr u, s2) \<Rightarrow> Some (Inr (), counter + 1, s2)))"

text \<open>\<^verbatim>\<open>_thread\<close>: the worker. \<^verbatim>\<open>manager.datetime < end_date\<close> is a TypeError when
  \<^verbatim>\<open>end_date\<close> is left at its default \<^verbatim>\<open>None\<close>.\<close>

partial_function (option) thread_loop ::
  "source \<Rightarrow> symbol \<Rightarrow> datetime option \<Rightarrow> int \<Rightarrow> 32 word \<Rightarrow> state
     \<Rightarrow> ((error + unit) \<times> 32 word \<times> state) option" where
  "thread_loop src symbol end_date interval counter manager =
     (case end_date of
        None \<Rightarrow> Some (Inl TypeError, counter, manager)
      | Some e \<Rightarrow>
          if datetime manager < e then
            (case thread_step src symbol interval counter manager of
               None \<Rightarrow> None
             | Some (Inl err, c1, s1) \<Rightarrow> Some (Inl err, c1, s1)
             | Some (Inr u, c1, s1) \<Rightarrow> thread_loop src symbol end_date interval c1 s1)
          else Some (Inr (), counter, manager))"

declare thread_loop.simps [code]

definition thread ::
  "source \<Rightarrow> config \<Rightarrow> (symbol \<times> int \<rightharpoonup> real) \<Rightarrow> datetime option \<Rightarrow> datetime option \<Rightarrow> int
     \<Rightarrow> symbol \<Rightarrow> 32 word \<Rightarrow> ((error + unit) \<times> 32 word \<times> state) option" where
  "thread src config disk start_date end_date interval symbol counter =
     thread_loop src symbol end_date interval counter (init_manager config start_date None disk)"

text \<open>One round of the supervisor (lines 185 to 189): what it prints, from the values
  it reads in the workers' counters. \<^verbatim>\<open>int(total / len(processes))\<close> truncates
  towards zero and is a ZeroDivisionError for an empty coin list; the sum with
  \<^verbatim>\<open>timedelta(minutes=avg)\<close> is an OverflowError outside the range of
  \<^verbatim>\<open>datetime\<close>.\<close>

record report =
  total :: int
  avg :: int
  avg_datetime :: datetime

definition progress :: "32 word list \<Rightarrow> error + report" where
  "progress values =
     (let total = sum_list (map sint values) in
      if length values = 0 then Inl ZeroDivisionError
      else
        (let avg = sgn total * (\<bar>total\<bar> div int (length values));
             t = datetime_2021_01_01 + minutes avg
         in if 0 \<le> t \<and> t \<le> datetime_max
            then Inr \<lparr>total = total, avg = avg, avg_datetime = t\<rparr>
            else Inl OverflowError))"

text \<open>The supervisor's \<^verbatim>\<open>while True\<close> loop, which has no \<^verbatim>\<open>break\<close> and no
  \<^verbatim>\<open>return\<close>. The workers run in processes of their own; \<open>obs k coin\<close> is the
  value the supervisor reads in the counter of \<open>coin\<close>'s worker in round \<open>k\<close>.\<close>

partial_function (option) supervise ::
  "(nat \<Rightarrow> symbol \<Rightarrow> 32 word) \<Rightarrow> symbol list \<Rightarrow> nat \<Rightarrow> (error + unit) option" where
  "supervise obs processes k =
     (case progress (map (obs k) processes) of
        Inl e \<Rightarrow> Some (Inl e)
      | Inr r \<Rightarrow> supervise obs processes (Suc k))"

declare supervise.simps [code]

definition download_market_data ::
  "config \<Rightarrow> (nat \<Rightarrow> symbol \<Rightarrow> 32 word) \<Rightarrow> (error + unit) option" where
  "download_market_data config obs = supervise obs (SUPPORTED_COIN_LIST config) 0"

section \<open>Concrete inputs\<close>

text \<open>A source that answers every request with one kline of open price 2, one that
  never has data, and a manager at the default start date.\<close>

definition demo_source :: source where
  "demo_source n ticker dt = Klines [2]"

definition no_data_source :: source where
  "no_data_source n ticker dt = Klines []"

definition demo_state :: state where
  "demo_state = \<lparr>datetime = datetime_2021_01_01, balances = [''USDT'' \<mapsto> 100, ''ETH'' \<mapsto> 3],
     cache = Map.empty, calls = 0\<rparr>"


text \<open>A configuration with two coins and one with none; a trader that only counts its
  ticks, and one that writes a mark in the ledger at every tick and is interrupted
  during its third; a source that fails with the API's own exception, and one that
  fails with another.\<close>

definition demo_config :: config where
  "demo_config = \<lparr>BRIDGE = ''USDT'', SUPPORTED_COIN_LIST = [''BTC'', ''ETH'']\<rparr>"


definition interrupted_trader :: "nat trader" where
  "interrupted_trader =
     \<lparr>initialize_trade_thresholds = (\<lambda>(t, s). (Inr (), 0, s)),
      scout = (\<lambda>(t, s).
        if t = 2 then (Inl KeyboardInterrupt, t, s\<lparr>balances := (balances s)(''MARK'' \<mapsto> 99)\<rparr>)
        else (Inr (), Suc t, s\<lparr>balances := (balances s)(''MARK'' \<mapsto> real t)\<rparr>))\<rparr>"



definition empty_config :: config where
  "empty_config = \<lparr>BRIDGE = ''USDT'', SUPPORTED_COIN_LIST = []\<rparr>"

section \<open>Facts about the price lookup\<close>

lemmas demo_eval = demo_source_def no_data_source_def demo_state_def buy_alt_def sell_alt_def
  get_price_def get_market_ticker_price.simps get_currency_balance_def get_fee_def
  buy_quantity_def sell_quantity_def Let_def strftime_def datetime_2021_01_01_def

lemma lookup_frame_aux:
  "get_market_ticker_price src ticker s = Some y \<Longrightarrow>
   balances (snd y) = balances s \<and> datetime (snd y) = datetime s"
proof (erule get_market_ticker_price.raw_induct [rotated], goal_cases)
  case (1 lookup src ticker s y)
  from 1(2) show ?case
    by (auto simp: Let_def dest!: 1(1) split: option.splits response.splits list.splits if_splits)
qed



section \<open>Fees\<close>



section \<open>Non-negative balances\<close>








lemma cache_non_negative_balances:
  "cache_non_negative (s\<lparr>balances := b\<rparr>) = cache_non_negative s"
  by (simp add: cache_non_negative_def)









section \<open>Cache fill\<close>







section \<open>Missing data\<close>

lemma lookup_no_data:
  assumes "cache s (ticker, strftime (datetime s)) = None"
    and "src (calls s) ticker (strftime (datetime s)) = Klines []"
  shows "get_market_ticker_price src ticker s = Some (Inr None, s\<lparr>calls := Suc (calls s)\<rparr>)"
  using assms by (subst get_market_ticker_price.simps) (simp add: Let_def)

text \<open>
  C3 (amended). Where the cache has no entry and the source reports no data for the
  pair at the current clock, the price lookup returns absent without raising, and an
  order on that pair, buy or sell, changes no balance: it ends in an exception (the
  one the sizing helper raises, else the TypeError of the product with the absent
  price) and leaves the state as the lookup left it.
\<close>

theorem no_data_no_fill:
  assumes "cache s (origin_symbol @ target_symbol, strftime (datetime s)) = None"
    and "src (calls s) (origin_symbol @ target_symbol) (strftime (datetime s)) = Klines []"
  shows "get_market_ticker_price src (origin_symbol @ target_symbol) s
           = Some (Inr None, s\<lparr>calls := Suc (calls s)\<rparr>)
       \<and> buy_alt src bq origin_symbol target_symbol FakeAllTickers s
           = Some (Inl (case bq origin_symbol target_symbol (get_currency_balance s target_symbol) None of
                          Inl e \<Rightarrow> e | Inr q \<Rightarrow> TypeError),
                   s\<lparr>calls := Suc (calls s)\<rparr>)
       \<and> sell_alt src sq origin_symbol target_symbol s
           = Some (Inl (case sq origin_symbol target_symbol (get_currency_balance s origin_symbol) of
                          Inl e \<Rightarrow> e | Inr q \<Rightarrow> TypeError),
                   s\<lparr>calls := Suc (calls s)\<rparr>)
       \<and> balances (s\<lparr>calls := Suc (calls s)\<rparr>) = balances s"
proof -
  note look = lookup_no_data [of s "origin_symbol @ target_symbol" src, OF assms]
  have "buy_alt src bq origin_symbol target_symbol FakeAllTickers s
           = Some (Inl (case bq origin_symbol target_symbol (get_currency_balance s target_symbol) None of
                          Inl e \<Rightarrow> e | Inr q \<Rightarrow> TypeError),
                   s\<lparr>calls := Suc (calls s)\<rparr>)"
    by (simp add: buy_alt_def get_price_def look split: sum.splits)
  moreover have "sell_alt src sq origin_symbol target_symbol s
           = Some (Inl (case sq origin_symbol target_symbol (get_currency_balance s origin_symbol) of
                          Inl e \<Rightarrow> e | Inr q \<Rightarrow> TypeError),
                   s\<lparr>calls := Suc (calls s)\<rparr>)"
    by (simp add: sell_alt_def look split: sum.splits)
  ultimately show ?thesis using look by simp
qed

theorem no_data_no_fill_witness:
  "cache demo_state (''ETH'' @ ''USDT'', strftime (datetime demo_state)) = None
   \<and> no_data_source (calls demo_state) (''ETH'' @ ''USDT'') (strftime (datetime demo_state)) = Klines []
   \<and> get_market_ticker_price no_data_source (''ETH'' @ ''USDT'') demo_state
       = Some (Inr None, demo_state\<lparr>calls := 1\<rparr>)
   \<and> buy_alt no_data_source buy_quantity ''ETH'' ''USDT'' FakeAllTickers demo_state
       = Some (Inl TypeError, demo_state\<lparr>calls := 1\<rparr>)
   \<and> sell_alt no_data_source sell_quantity ''ETH'' ''USDT'' demo_state
       = Some (Inl TypeError, demo_state\<lparr>calls := 1\<rparr>)
   \<and> balances (demo_state\<lparr>calls := 1\<rparr>) = balances demo_state"
  using no_data_no_fill [of demo_state "''ETH''" "''USDT''" no_data_source buy_quantity sell_quantity]
  by (simp add: demo_state_def no_data_source_def buy_quantity_def sell_quantity_def)

text \<open>With the sizing helpers of the spec, a buy and a sell at a pair without data both
  raise TypeError: the absent price reaches the caller of the order as an exception.\<close>

theorem order_at_absent_price_counterexample:
  "map_option fst (buy_alt no_data_source buy_quantity ''BTC'' ''USDT'' FakeAllTickers demo_state)
     = Some (Inl TypeError)
   \<and> map_option fst (sell_alt no_data_source sell_quantity ''ETH'' ''USDT'' demo_state)
     = Some (Inl TypeError)"
  by (simp add: demo_eval)


section \<open>Clock\<close>

lemma advance_Suc_ok:
  "fst (advance (Suc n) interval s) = Inr () \<Longrightarrow>
   increment interval s = (Inr (), s\<lparr>datetime := datetime s + minutes interval\<rparr>)
   \<and> advance (Suc n) interval s = advance n interval (s\<lparr>datetime := datetime s + minutes interval\<rparr>)"
  by (auto simp: increment_def Let_def split: if_splits)

lemma advance_ok:
  "fst (advance n interval s) = Inr () \<Longrightarrow>
   datetime (snd (advance n interval s)) = datetime s + minutes (int n * interval)"
proof (induction n arbitrary: s)
  case 0
  then show ?case by (simp add: minutes_def)
next
  case (Suc n)
  from advance_Suc_ok [OF Suc.prems]
  have eq: "advance (Suc n) interval s
      = advance n interval (s\<lparr>datetime := datetime s + minutes interval\<rparr>)" by simp
  with Suc.prems have "fst (advance n interval (s\<lparr>datetime := datetime s + minutes interval\<rparr>)) = Inr ()"
    by simp
  from Suc.IH [OF this] show ?case
    unfolding eq by (simp add: minutes_def algebra_simps)
qed

lemma advance_prefix:
  "fst (advance n interval s) = Inr () \<Longrightarrow> k \<le> n \<Longrightarrow> fst (advance k interval s) = Inr ()"
proof (induction k arbitrary: n s)
  case 0
  then show ?case by simp
next
  case (Suc k)
  then obtain m where n: "n = Suc m" and km: "k \<le> m" by (cases n) auto
  from advance_Suc_ok [of m interval s] Suc.prems(1) n
  have inc: "increment interval s = (Inr (), s\<lparr>datetime := datetime s + minutes interval\<rparr>)"
    and eq: "advance (Suc m) interval s
      = advance m interval (s\<lparr>datetime := datetime s + minutes interval\<rparr>)" by simp_all
  from Suc.prems(1) n eq
  have "fst (advance m interval (s\<lparr>datetime := datetime s + minutes interval\<rparr>)) = Inr ()"
    by simp
  from Suc.IH [OF this km] inc show ?case by simp
qed

lemma advance_never_backward:
  "0 < interval \<Longrightarrow> datetime s \<le> datetime (snd (advance n interval s))"
proof (induction n arbitrary: s)
  case 0
  then show ?case by simp
next
  case (Suc n)
  show ?case
  proof (cases "fst (increment interval s)")
    case (Inl e)
    then show ?thesis
      by (auto simp: increment_def Let_def split: if_splits)
  next
    case (Inr u)
    then have inc: "increment interval s = (Inr (), s\<lparr>datetime := datetime s + minutes interval\<rparr>)"
      by (auto simp: increment_def Let_def split: if_splits)
    from Suc.IH [OF Suc.prems, of "s\<lparr>datetime := datetime s + minutes interval\<rparr>"] Suc.prems inc
    show ?thesis by (simp add: minutes_def)
  qed
qed

lemma advance_in_range:
  "0 \<le> datetime s \<Longrightarrow> datetime s \<le> datetime_max \<Longrightarrow>
   0 \<le> datetime (snd (advance n interval s)) \<and> datetime (snd (advance n interval s)) \<le> datetime_max"
proof (induction n arbitrary: s)
  case 0
  then show ?case by simp
next
  case (Suc n)
  show ?case
  proof (cases "fst (increment interval s)")
    case (Inl e)
    with Suc.prems show ?thesis
      by (auto simp: increment_def Let_def split: if_splits)
  next
    case (Inr u)
    then have inc: "increment interval s = (Inr (), s\<lparr>datetime := datetime s + minutes interval\<rparr>)"
      and rng: "0 \<le> datetime s + minutes interval" "datetime s + minutes interval \<le> datetime_max"
      by (auto simp: increment_def Let_def split: if_splits)
    from Suc.IH [of "s\<lparr>datetime := datetime s + minutes interval\<rparr>"] rng inc
    show ?thesis by simp
  qed
qed

text \<open>
  C7. For a positive interval: when \<open>n\<close> calls of \<^verbatim>\<open>increment\<close> have returned, the
  clock is at the start plus \<open>n\<close> times the interval (in minutes), and it grew strictly
  with each of the calls. Whatever happens, the clock is never earlier than at the
  start; and from a start within the range of \<^verbatim>\<open>datetime\<close> it stays within it (a
  call that would leave the range raises OverflowError and does not move the clock), so
  it never wraps around.
\<close>

theorem clock_strictly_increasing:
  assumes "0 < interval"
  shows "(fst (advance n interval s) = Inr () \<longrightarrow>
            datetime (snd (advance n interval s)) = datetime s + minutes (int n * interval)
            \<and> (\<forall>k<n. datetime (snd (advance k interval s))
                       < datetime (snd (advance (Suc k) interval s))))
       \<and> datetime s \<le> datetime (snd (advance n interval s))
       \<and> (0 \<le> datetime s \<and> datetime s \<le> datetime_max \<longrightarrow>
            0 \<le> datetime (snd (advance n interval s))
            \<and> datetime (snd (advance n interval s)) \<le> datetime_max)"
proof (intro conjI impI allI)
  assume ok: "fst (advance n interval s) = Inr ()"
  then show "datetime (snd (advance n interval s)) = datetime s + minutes (int n * interval)"
    by (rule advance_ok)
  fix k assume "k < n"
  then have kn: "k \<le> n" "Suc k \<le> n" by simp_all
  have "fst (advance k interval s) = Inr ()" "fst (advance (Suc k) interval s) = Inr ()"
    by (rule advance_prefix [OF ok kn(1)], rule advance_prefix [OF ok kn(2)])
  then have "datetime (snd (advance k interval s)) = datetime s + minutes (int k * interval)"
    "datetime (snd (advance (Suc k) interval s)) = datetime s + minutes (int (Suc k) * interval)"
    by (simp_all only: advance_ok)
  with assms show "datetime (snd (advance k interval s)) < datetime (snd (advance (Suc k) interval s))"
    by (simp add: minutes_def algebra_simps)
next
  from assms show "datetime s \<le> datetime (snd (advance n interval s))"
    by (rule advance_never_backward)
next
  assume "0 \<le> datetime s \<and> datetime s \<le> datetime_max"
  then show "0 \<le> datetime (snd (advance n interval s))"
    and "datetime (snd (advance n interval s)) \<le> datetime_max"
    using advance_in_range [of s n interval] by simp_all
qed

lemma demo_advance:
  "advance (Suc 0) 5 demo_state = (Inr (), demo_state\<lparr>datetime := 63745056300000000\<rparr>)"
  "advance (Suc (Suc 0)) 5 demo_state = (Inr (), demo_state\<lparr>datetime := 63745056600000000\<rparr>)"
  "advance (Suc (Suc (Suc 0))) 5 demo_state = (Inr (), demo_state\<lparr>datetime := 63745056900000000\<rparr>)"
  by (simp_all add: increment_def Let_def minutes_def datetime_max_def
        demo_state_def datetime_2021_01_01_def)

theorem clock_strictly_increasing_witness:
  "(0::int) < 5
   \<and> fst (advance (Suc (Suc (Suc 0))) 5 demo_state) = Inr ()
   \<and> datetime (snd (advance (Suc (Suc (Suc 0))) 5 demo_state)) = datetime demo_state + minutes 15
   \<and> datetime (snd (advance 0 5 demo_state)) < datetime (snd (advance (Suc 0) 5 demo_state))
   \<and> datetime (snd (advance (Suc 0) 5 demo_state)) < datetime (snd (advance (Suc (Suc 0)) 5 demo_state))
   \<and> 0 \<le> datetime demo_state \<and> datetime demo_state \<le> datetime_max
   \<and> datetime (snd (advance (Suc (Suc (Suc 0))) 5 demo_state)) \<le> datetime_max"
proof -
  have ok: "fst (advance (Suc (Suc (Suc 0))) 5 demo_state) = Inr ()"
    by (simp only: demo_advance fst_conv)
  have rng: "0 \<le> datetime demo_state \<and> datetime demo_state \<le> datetime_max"
    by (simp add: demo_state_def datetime_2021_01_01_def datetime_max_def)
  note inst = clock_strictly_increasing [of 5 "Suc (Suc (Suc 0))" demo_state]
  from inst ok have 1: "datetime (snd (advance (Suc (Suc (Suc 0))) 5 demo_state))
      = datetime demo_state + minutes (int (Suc (Suc (Suc 0))) * 5)"
    and 2: "\<forall>k<Suc (Suc (Suc 0)). datetime (snd (advance k 5 demo_state))
        < datetime (snd (advance (Suc k) 5 demo_state))"
    by simp_all
  from 2 have 3: "datetime (snd (advance 0 5 demo_state)) < datetime (snd (advance (Suc 0) 5 demo_state))"
    and 4: "datetime (snd (advance (Suc 0) 5 demo_state)) < datetime (snd (advance (Suc (Suc 0)) 5 demo_state))"
    by blast+
  from inst rng have 5: "datetime (snd (advance (Suc (Suc (Suc 0))) 5 demo_state)) \<le> datetime_max"
    by simp
  from 1 have 6: "datetime (snd (advance (Suc (Suc (Suc 0))) 5 demo_state)) = datetime demo_state + minutes 15"
    by simp
  from ok 6 3 4 5 rng show ?thesis by simp
qed

section \<open>The opening position\<close>



lemma demo_opening:
  "open_position demo_source buy_quantity Inr demo_config None
     (init_manager demo_config (Some datetime_2021_01_01) None Map.empty)
   = Some (Inr ''BTC'',
       \<lparr>datetime = datetime_2021_01_01,
        balances = [''USDT'' \<mapsto> 0, ''BTC'' \<mapsto> 50 * (1 - 0.0075)],
        cache = [(''BTCUSDT'', 63745056000) \<mapsto> 2],
        calls = 1\<rparr>)"
  by (simp add: open_position_def starting_symbol_def demo_config_def init_manager_def
      get_all_market_tickers_def demo_eval)


text \<open>
  C5 (amended). When the starting coin has a zero balance, \<^verbatim>\<open>backtest\<close> places, before the
  loop, exactly one buy of that coin against the bridge. The tickers object it passes is
  the manager's \<^verbatim>\<open>FakeAllTickers\<close>, whose price is the manager's own price lookup:
  the cache, then the historical source at the clock's time; there is no live snapshot.
  When the bridge has a ledger entry \<open>b\<close>, the lookup returns a price \<open>p\<close> and the
  sizing helper a quantity \<open>q\<close>, the starting coin's balance is afterwards
  \<open>q * (1 - 0.0075)\<close> and the bridge's \<open>b - q * p\<close>: nonzero and decreased for
  positive \<open>q\<close> and \<open>p\<close>.
\<close>

theorem opening_buy:
  assumes "starting_symbol config starting_coin = Inr c" and "get_coin c = Inr coin"
    and "get_currency_balance manager coin = 0"
  shows "open_position src bq get_coin config starting_coin manager
           = map_option (\<lambda>(r, s). (case r of Inl e \<Rightarrow> Inl e | Inr p \<Rightarrow> Inr coin, s))
               (buy_alt src bq coin (BRIDGE config) FakeAllTickers manager)
       \<and> get_price src (get_all_market_tickers manager) ticker manager
           = get_market_ticker_price src ticker manager
       \<and> (coin \<noteq> BRIDGE config
            \<and> balances manager (BRIDGE config) = Some b
            \<and> get_market_ticker_price src (coin @ BRIDGE config) manager = Some (Inr (Some p), s1)
            \<and> bq coin (BRIDGE config) b (Some p) = Inr q
          \<longrightarrow> (\<exists>s'. open_position src bq get_coin config starting_coin manager = Some (Inr coin, s')
                 \<and> get_currency_balance s' coin = q * (1 - 0.0075)
                 \<and> get_currency_balance s' (BRIDGE config) = b - q * p
                 \<and> (0 < q \<and> 0 < p \<longrightarrow>
                       get_currency_balance s' coin \<noteq> 0 \<and> get_currency_balance s' (BRIDGE config) < b)))"
proof (intro conjI impI)
  show "open_position src bq get_coin config starting_coin manager
           = map_option (\<lambda>(r, s). (case r of Inl e \<Rightarrow> Inl e | Inr p \<Rightarrow> Inr coin, s))
               (buy_alt src bq coin (BRIDGE config) FakeAllTickers manager)"
    using assms
    by (auto simp: open_position_def get_all_market_tickers_def split: option.splits sum.splits)
  show "get_price src (get_all_market_tickers manager) ticker manager
           = get_market_ticker_price src ticker manager"
    by (simp add: get_price_def get_all_market_tickers_def)
next
  assume a: "coin \<noteq> BRIDGE config
            \<and> balances manager (BRIDGE config) = Some b
            \<and> get_market_ticker_price src (coin @ BRIDGE config) manager = Some (Inr (Some p), s1)
            \<and> bq coin (BRIDGE config) b (Some p) = Inr q"
  then have look: "get_market_ticker_price src (coin @ BRIDGE config) manager = Some (Inr (Some p), s1)"
    by simp
  from lookup_frame_aux [OF look] have fr: "balances s1 = balances manager" by simp
  let ?s' = "s1\<lparr>balances := (balances manager)(BRIDGE config \<mapsto> b - q * p,
      coin \<mapsto> q * (1 - 0.0075))\<rparr>"
  have c0: "(case balances manager coin of None \<Rightarrow> 0 | Some x \<Rightarrow> x) = 0"
    using assms(3) by (simp add: get_currency_balance_def)
  have buy: "buy_alt src bq coin (BRIDGE config) FakeAllTickers manager = Some (Inr p, ?s')"
    using a fr c0
    by (simp add: buy_alt_def get_price_def Let_def get_currency_balance_def get_fee_def)
  have op: "open_position src bq get_coin config starting_coin manager = Some (Inr coin, ?s')"
    using assms buy by (simp add: open_position_def get_all_market_tickers_def)
  have 1: "get_currency_balance ?s' coin = q * (1 - 0.0075)"
    by (simp add: get_currency_balance_def)
  have 2: "get_currency_balance ?s' (BRIDGE config) = b - q * p"
    using a by (auto simp: get_currency_balance_def)
  have 3: "get_currency_balance ?s' coin \<noteq> 0 \<and> get_currency_balance ?s' (BRIDGE config) < b"
    if "0 < q \<and> 0 < p"
    using that unfolding 1 2 by simp
  from op 1 2 3 show "\<exists>s'. open_position src bq get_coin config starting_coin manager = Some (Inr coin, s')
                 \<and> get_currency_balance s' coin = q * (1 - 0.0075)
                 \<and> get_currency_balance s' (BRIDGE config) = b - q * p
                 \<and> (0 < q \<and> 0 < p \<longrightarrow>
                       get_currency_balance s' coin \<noteq> 0 \<and> get_currency_balance s' (BRIDGE config) < b)"
    by blast
qed

theorem opening_buy_witness:
  "starting_symbol demo_config None = Inr ''BTC''
   \<and> get_currency_balance (init_manager demo_config None None Map.empty) ''BTC'' = 0
   \<and> ''BTC'' \<noteq> BRIDGE demo_config
   \<and> balances (init_manager demo_config None None Map.empty) (BRIDGE demo_config) = Some 100
   \<and> get_market_ticker_price demo_source (''BTC'' @ BRIDGE demo_config)
        (init_manager demo_config None None Map.empty)
      = Some (Inr (Some 2), snd (the (get_market_ticker_price demo_source (''BTC'' @ BRIDGE demo_config)
          (init_manager demo_config None None Map.empty))))
   \<and> buy_quantity ''BTC'' (BRIDGE demo_config) 100 (Some 2) = Inr 50
   \<and> (\<exists>s'. open_position demo_source buy_quantity Inr demo_config None
              (init_manager demo_config None None Map.empty) = Some (Inr ''BTC'', s')
          \<and> get_currency_balance s' ''BTC'' = 50 * (1 - 0.0075)
          \<and> get_currency_balance s' (BRIDGE demo_config) = 100 - 50 * 2
          \<and> get_currency_balance s' ''BTC'' \<noteq> 0
          \<and> get_currency_balance s' (BRIDGE demo_config) < 100)"
proof -
  let ?m = "init_manager demo_config None None Map.empty"
  have 1: "starting_symbol demo_config None = Inr ''BTC''"
    by (simp add: starting_symbol_def demo_config_def)
  have 2: "(Inr :: symbol \<Rightarrow> error + symbol) ''BTC'' = Inr ''BTC''" by simp
  have 3: "get_currency_balance ?m ''BTC'' = 0"
    by (simp add: get_currency_balance_def init_manager_def demo_config_def)
  have 4: "''BTC'' \<noteq> BRIDGE demo_config" by (simp add: demo_config_def)
  have 5: "balances ?m (BRIDGE demo_config) = Some 100"
    by (simp add: init_manager_def demo_config_def)
  have 6: "get_market_ticker_price demo_source (''BTC'' @ BRIDGE demo_config) ?m
      = Some (Inr (Some 2), snd (the (get_market_ticker_price demo_source (''BTC'' @ BRIDGE demo_config) ?m)))"
    by (simp add: init_manager_def demo_config_def demo_eval)
  have 7: "buy_quantity ''BTC'' (BRIDGE demo_config) 100 (Some 2) = Inr 50"
    by (simp add: buy_quantity_def)
  note inst = opening_buy [where config = demo_config and starting_coin = None and c = "''BTC''"
      and get_coin = Inr and coin = "''BTC''" and manager = ?m and src = demo_source
      and bq = buy_quantity and b = 100 and p = 2 and q = 50
      and ?s1.0 = "snd (the (get_market_ticker_price demo_source (''BTC'' @ BRIDGE demo_config) ?m))",
      OF 1 2 3]
  from inst [THEN conjunct2, THEN conjunct2, THEN mp, OF conjI [OF 4 conjI [OF 5 conjI [OF 6 7]]]]
  obtain s' where s': "open_position demo_source buy_quantity Inr demo_config None ?m = Some (Inr ''BTC'', s')"
      "get_currency_balance s' ''BTC'' = 50 * (1 - 0.0075)"
      "get_currency_balance s' (BRIDGE demo_config) = 100 - 50 * 2"
      "(0::real) < 50 \<and> (0::real) < 2 \<longrightarrow>
         get_currency_balance s' ''BTC'' \<noteq> 0 \<and> get_currency_balance s' (BRIDGE demo_config) < 100"
    by blast
  from s'(4) have "get_currency_balance s' ''BTC'' \<noteq> 0"
    "get_currency_balance s' (BRIDGE demo_config) < 100" by simp_all
  with s'(1-3) have "\<exists>s'. open_position demo_source buy_quantity Inr demo_config None ?m = Some (Inr ''BTC'', s')
          \<and> get_currency_balance s' ''BTC'' = 50 * (1 - 0.0075)
          \<and> get_currency_balance s' (BRIDGE demo_config) = 100 - 50 * 2
          \<and> get_currency_balance s' ''BTC'' \<noteq> 0
          \<and> get_currency_balance s' (BRIDGE demo_config) < 100"
    by blast
  with 1 3 4 5 6 7 show ?thesis by blast
qed

text \<open>With the default ledger and an empty cache, the opening buy sends one request to
  the historical source, caches its kline and fills at that price.\<close>

theorem opening_price_from_history_counterexample:
  "get_all_market_tickers (init_manager demo_config None None Map.empty) = FakeAllTickers
   \<and> map_option (\<lambda>(r, s). (r, calls s, cache s (''BTCUSDT'', 63745056000),
          get_currency_balance s ''BTC'', get_currency_balance s ''USDT''))
       (open_position demo_source buy_quantity Inr demo_config None
          (init_manager demo_config None None Map.empty))
     = Some (Inr ''BTC'', 1, Some 2, 50 * (1 - 0.0075), 0)"
  by (simp add: open_position_def starting_symbol_def demo_config_def init_manager_def
      get_all_market_tickers_def demo_eval)

section \<open>The tick loop\<close>

lemma tick_loop_after_ticks:
  "after_ticks scout_fn end_date interval k (t, s) = Some (tk, sk) \<Longrightarrow>
   tick_loop scout_fn end_date interval n t s = tick_loop scout_fn end_date interval (n + k) tk sk"
proof (induction k arbitrary: n t s)
  case 0
  then show ?case by simp
next
  case (Suc k)
  from Suc.prems obtain t1 s1 s2 where
    lt: "datetime s < end_date"
    and sc: "scout_fn (t, s) = (Inr (), t1, s1)"
    and inc: "increment interval s1 = (Inr (), s2)"
    and rest: "after_ticks scout_fn end_date interval k (t1, s2) = Some (tk, sk)"
    by (auto split: if_splits prod.splits sum.splits)
  have "tick_loop scout_fn end_date interval n t s
      = tick_loop scout_fn end_date interval (Suc n) t1 s2"
    using lt sc inc by (subst tick_loop.simps) simp
  also have "\<dots> = tick_loop scout_fn end_date interval (Suc n + k) tk sk"
    by (rule Suc.IH [OF rest])
  finally show ?case by simp
qed

lemma run_loop_interrupted:
  assumes "after_ticks (scout tr) end_date interval k (t, s) = Some (tk, sk)"
    and "datetime sk < end_date"
    and "scout tr (tk, sk) = (Inl KeyboardInterrupt, t', s')"
  shows "run_loop tr end_date interval t s = Some (Inr (balances s'), Suc k)"
proof -
  have "tick_loop (scout tr) end_date interval 0 t s
      = tick_loop (scout tr) end_date interval (0 + k) tk sk"
    using assms(1) by (rule tick_loop_after_ticks)
  also have "\<dots> = Some (Inl KeyboardInterrupt, Suc k, t', s')"
    using assms(2,3) by (subst tick_loop.simps) simp
  finally show ?thesis by (simp add: run_loop_def)
qed


text \<open>
  C6. Let the set-up of \<^verbatim>\<open>backtest\<close> reach the loop, let \<open>k\<close> whole ticks pass, and
  let a KeyboardInterrupt arrive during the next call of \<^verbatim>\<open>scout\<close> (tick \<open>k\<close>), at
  the state \<open>s'\<close>. Then the loop stops and \<^verbatim>\<open>backtest\<close> returns the ledger of \<open>s'\<close>,
  not an exception: the ledger as ticks 0 to \<open>k\<close> left it, after \<open>k + 1\<close> calls of
  \<^verbatim>\<open>scout\<close> and no later tick.
\<close>

theorem cancellation_returns_ledger:
  assumes "open_position src bq get_coin config starting_coin
             (init_manager config start_date start_balances disk) = Some (Inr coin, s0)"
    and "initialize_trade_thresholds tr (t0, s0) = (Inr (), t, s)"
    and "after_ticks (scout tr) end_date interval k (t, s) = Some (tk, sk)"
    and "datetime sk < end_date"
    and "scout tr (tk, sk) = (Inl KeyboardInterrupt, t', s')"
  shows "run_loop tr end_date interval t s = Some (Inr (balances s'), Suc k)
       \<and> backtest src bq get_coin tr t0 today disk start_date (Some end_date) interval
            start_balances starting_coin config = Some (Inr (balances s'), Suc k)"
proof -
  have "run_loop tr end_date interval t s = Some (Inr (balances s'), Suc k)"
    using assms(3-5) by (rule run_loop_interrupted)
  with assms(1,2) show ?thesis by (simp add: backtest_def Let_def)
qed

lemma demo_ticks:
  "after_ticks (scout interrupted_trader) (datetime_2021_01_01 + minutes 10) 1 (Suc (Suc 0))
     (0, \<lparr>datetime = datetime_2021_01_01,
        balances = [''USDT'' \<mapsto> 0, ''BTC'' \<mapsto> 50 * (1 - 0.0075)],
        cache = [(''BTCUSDT'', 63745056000) \<mapsto> 2],
        calls = 1\<rparr>)
   = Some (2, \<lparr>datetime = datetime_2021_01_01 + minutes 2,
        balances = [''USDT'' \<mapsto> 0, ''BTC'' \<mapsto> 50 * (1 - 0.0075), ''MARK'' \<mapsto> 1],
        cache = [(''BTCUSDT'', 63745056000) \<mapsto> 2],
        calls = 1\<rparr>)"
  by (simp add: interrupted_trader_def increment_def Let_def minutes_def datetime_2021_01_01_def
      datetime_max_def)

theorem cancellation_returns_ledger_witness:
  "backtest demo_source buy_quantity Inr interrupted_trader 0 0 Map.empty
      (Some datetime_2021_01_01) (Some (datetime_2021_01_01 + minutes 10)) 1 None None demo_config
   = Some (Inr [''USDT'' \<mapsto> 0, ''BTC'' \<mapsto> 50 * (1 - 0.0075), ''MARK'' \<mapsto> 99], 3)"
proof -
  let ?s0 = "\<lparr>datetime = datetime_2021_01_01,
        balances = [''USDT'' \<mapsto> 0, ''BTC'' \<mapsto> 50 * (1 - 0.0075)],
        cache = [(''BTCUSDT'', 63745056000) \<mapsto> 2],
        calls = 1\<rparr>"
  let ?sk = "\<lparr>datetime = datetime_2021_01_01 + minutes 2,
        balances = [''USDT'' \<mapsto> 0, ''BTC'' \<mapsto> 50 * (1 - 0.0075), ''MARK'' \<mapsto> 1],
        cache = [(''BTCUSDT'', 63745056000) \<mapsto> 2],
        calls = 1\<rparr>"
  have 2: "initialize_trade_thresholds interrupted_trader (0, ?s0) = (Inr (), 0, ?s0)"
    by (simp add: interrupted_trader_def)
  have 4: "datetime ?sk < datetime_2021_01_01 + minutes 10"
    by (simp add: minutes_def)
  have 5: "scout interrupted_trader (2, ?sk)
      = (Inl KeyboardInterrupt, 2, ?sk\<lparr>balances := (balances ?sk)(''MARK'' \<mapsto> 99)\<rparr>)"
    by (simp add: interrupted_trader_def)
  from cancellation_returns_ledger [OF demo_opening 2 demo_ticks 4 5, of 0]
  show ?thesis by (simp add: numeral_2_eq_2 numeral_3_eq_3)
qed



section \<open>Prefetch\<close>



lemma supervise_result:
  "supervise obs processes k = Some y \<Longrightarrow> (\<exists>j e. progress (map (obs j) processes) = Inl e \<and> y = Inl e)"
proof (erule supervise.raw_induct [rotated], goal_cases)
  case (1 sup obs processes k y)
  from 1(2) show ?case
    by (auto split: sum.splits dest: 1(1))
qed

lemma supervise_forever:
  assumes "\<forall>k. \<exists>r. progress (map (obs k) processes) = Inr r"
  shows "supervise obs processes k = None"
proof (cases "supervise obs processes k")
  case None
  then show ?thesis .
next
  case (Some y)
  from supervise_result [OF this] obtain j e where "progress (map (obs j) processes) = Inl e"
    by blast
  with assms have False by (metis sum.distinct(1))
  then show ?thesis ..
qed

lemma thread_loop_done:
  "thread_loop src symbol end_date interval counter manager = Some y \<Longrightarrow>
   fst y = Inr () \<longrightarrow> (\<exists>e. end_date = Some e \<and> e \<le> datetime (snd (snd y)))"
proof (erule thread_loop.raw_induct [rotated], goal_cases)
  case (1 loop src symbol end_date interval counter manager y)
  from 1(2) show ?case
    by (auto split: option.splits if_splits sum.splits prod.splits dest: 1(1))
qed

text \<open>
  C9 (amended). \<^verbatim>\<open>download_market_data\<close> never returns: once the workers are
  started, the supervisor prints a progress report every round, forever, whatever the
  workers do. It ends only by an exception of the report itself (the ZeroDivisionError
  of an empty coin list, an OverflowError of the average date). A worker, in its own
  process, returns only when its clock has reached the end date.
\<close>

theorem prefetch_never_returns:
  "download_market_data config obs \<noteq> Some (Inr u)
   \<and> ((\<forall>k. \<exists>r. progress (map (obs k) (SUPPORTED_COIN_LIST config)) = Inr r)
        \<longrightarrow> download_market_data config obs = None)
   \<and> (SUPPORTED_COIN_LIST config = []
        \<longrightarrow> download_market_data config obs = Some (Inl ZeroDivisionError))
   \<and> (thread src config disk start_date end_date interval symbol counter = Some (Inr (), c, s)
        \<longrightarrow> (\<exists>e. end_date = Some e \<and> e \<le> datetime s))"
proof (intro conjI impI)
  show "download_market_data config obs \<noteq> Some (Inr u)"
    using supervise_result [of obs "SUPPORTED_COIN_LIST config" 0 "Inr u"]
    by (auto simp: download_market_data_def)
  show "download_market_data config obs = None"
    if "\<forall>k. \<exists>r. progress (map (obs k) (SUPPORTED_COIN_LIST config)) = Inr r"
    using that unfolding download_market_data_def by (rule supervise_forever)
  show "download_market_data config obs = Some (Inl ZeroDivisionError)"
    if "SUPPORTED_COIN_LIST config = []"
    unfolding download_market_data_def
    using that by (subst supervise.simps) (simp add: progress_def)
  show "\<exists>e. end_date = Some e \<and> e \<le> datetime s"
    if "thread src config disk start_date end_date interval symbol counter = Some (Inr (), c, s)"
    using thread_loop_done [OF that [unfolded thread_def]] by simp
qed

lemma demo_progress:
  "progress (map (\<lambda>coin. 7) (SUPPORTED_COIN_LIST demo_config))
     = Inr \<lparr>total = 14, avg = 7, avg_datetime = datetime_2021_01_01 + minutes 7\<rparr>"
  by (simp add: progress_def demo_config_def Let_def minutes_def datetime_2021_01_01_def
      datetime_max_def)

lemma demo_thread:
  "thread demo_source demo_config Map.empty None (Some datetime_2021_01_01) 1 ''BTCUSDT'' 0
     = Some (Inr (), 0, init_manager demo_config None None Map.empty)"
  unfolding thread_def by (subst thread_loop.simps) (simp add: init_manager_def)

theorem prefetch_never_returns_witness:
  "(\<forall>k. \<exists>r. progress (map ((\<lambda>k coin. 7) k) (SUPPORTED_COIN_LIST demo_config)) = Inr r)
   \<and> download_market_data demo_config (\<lambda>k coin. 7) = None
   \<and> SUPPORTED_COIN_LIST empty_config = []
   \<and> download_market_data empty_config (\<lambda>k coin. 7) = Some (Inl ZeroDivisionError)
   \<and> thread demo_source demo_config Map.empty None (Some datetime_2021_01_01) 1 ''BTCUSDT'' 0
       = Some (Inr (), 0, init_manager demo_config None None Map.empty)
   \<and> datetime_2021_01_01 \<le> datetime (init_manager demo_config None None Map.empty)"
proof -
  have 1: "\<forall>k. \<exists>r. progress (map ((\<lambda>k coin. 7) k) (SUPPORTED_COIN_LIST demo_config)) = Inr r"
    by (simp add: demo_progress)
  have 2: "SUPPORTED_COIN_LIST empty_config = []" by (simp add: empty_config_def)
  from prefetch_never_returns [of demo_config "\<lambda>k coin. 7" _ demo_source Map.empty None
      "Some datetime_2021_01_01" 1 "''BTCUSDT''" 0 0 "init_manager demo_config None None Map.empty"]
    1 demo_thread
  have a: "download_market_data demo_config (\<lambda>k coin. 7) = None"
    and b: "datetime_2021_01_01 \<le> datetime (init_manager demo_config None None Map.empty)"
    by simp_all
  from prefetch_never_returns [of empty_config "\<lambda>k coin. 7"] 2
  have c: "download_market_data empty_config (\<lambda>k coin. 7) = Some (Inl ZeroDivisionError)"
    by simp
  from 1 2 a b c demo_thread show ?thesis by simp
qed

text \<open>Both workers of the two-coin configuration are done at once (their clock starts
  at the end date), their counters stay 0, and the entry point still does not return.\<close>

theorem prefetch_runs_forever_counterexample:
  "thread demo_source demo_config Map.empty None (Some datetime_2021_01_01) 1 ''BTCUSDT'' 0
     = Some (Inr (), 0, init_manager demo_config None None Map.empty)
   \<and> thread demo_source demo_config Map.empty None (Some datetime_2021_01_01) 1 ''ETHUSDT'' 0
     = Some (Inr (), 0, init_manager demo_config None None Map.empty)
   \<and> download_market_data demo_config (\<lambda>k coin. 0) = None"
proof -
  have "progress (map (\<lambda>coin. 0) (SUPPORTED_COIN_LIST demo_config))
     = Inr \<lparr>total = 0, avg = 0, avg_datetime = datetime_2021_01_01\<rparr>"
    by (simp add: progress_def demo_config_def Let_def minutes_def datetime_2021_01_01_def
      datetime_max_def)
  then have "\<forall>k. \<exists>r. progress (map ((\<lambda>k coin. 0) k) (SUPPORTED_COIN_LIST demo_config)) = Inr r"
    by simp
  then have "download_market_data demo_config (\<lambda>k coin. 0) = None"
    unfolding download_market_data_def by (rule supervise_forever)
  moreover have "thread demo_source demo_config Map.empty None (Some datetime_2021_01_01) 1 ''ETHUSDT'' 0
     = Some (Inr (), 0, init_manager demo_config None None Map.empty)"
    unfolding thread_def by (subst thread_loop.simps) (simp add: init_manager_def)
  ultimately show ?thesis using demo_thread by simp
qed

end
